theory Spec2Isabelle
  imports Complex_Main "HOL-Library.AList" "HOL-Library.Multiset"
begin

section \<open>Tables, cells and errors\<close>

text \<open>
  A cell of a pandas column or of a SQLite table. \<open>NA\<close> is the missing value (SQL NULL,
  Python None, and the float NaN, which pandas treats as missing); \<open>Num\<close> a finite number;
  \<open>PInf\<close> and \<open>NInf\<close> the two float infinities; \<open>Str\<close> a text value. A number is read as
  its real value: integer and float representations of one number, and the sign of a float
  zero, are not distinguished.
\<close>

datatype cell = NA | Num real | PInf | NInf | Str string

type_synonym column = "cell list"

text \<open>A DataFrame or a stored table: its columns in order, each with its name.\<close>

type_synonym frame = "(string \<times> column) list"

text \<open>
  The exceptions the two scripts can raise, as values. \<open>DatabaseError\<close> is what pandas raises
  when SQLite fails to run a query; \<open>InvalidRequestError\<close> is raised by the database toolkit
  under \<open>to_sql\<close>.
\<close>

datatype error =
    TypeError | KeyError | ValueError | NameError | AttributeError
  | FileNotFoundError | ParserError | OperationalError | DatabaseError | InvalidRequestError

text \<open>
  The tables of the relational store that \<open>to_sql\<close> writes. SQLite compares table names
  without regard to the case of ASCII letters, so a table is kept under its name in lower
  case, together with the name it was created under.
\<close>

type_synonym store = "string \<Rightarrow> (string \<times> frame) option"

definition lower_char :: "char \<Rightarrow> char" where
  "lower_char c =
     (let n = (of_char c :: nat) in if 65 \<le> n \<and> n \<le> 90 then char_of (n + 32) else c)"

definition fold_case :: "string \<Rightarrow> string" where
  "fold_case s = map lower_char s"

text \<open>The contents of the table that the name denotes.\<close>

definition table_of :: "store \<Rightarrow> string \<Rightarrow> frame option" where
  "table_of con name = map_option snd (con (fold_case name))"

section \<open>Bulk loader (logs/ingestion\_db.py)\<close>

datatype if_exists = Fail | Replace | Append

definition nrows :: "frame \<Rightarrow> nat" where
  "nrows df = (case df of [] \<Rightarrow> 0 | (n, c) # rest \<Rightarrow> length c)"

text \<open>
  \<open>DataFrame.to_sql(name, con, if_exists, index)\<close>: with \<open>index\<close> set, the row labels are
  written as a first column named index. An empty table name is refused. An existing table
  makes \<open>fail\<close> raise, \<open>replace\<close> drop it first and \<open>append\<close> add the rows to it (the columns
  must be the same); \<open>replace\<close> finds the table whatever the case of its name, but can drop
  it only under the name it was created with.
\<close>

definition to_sql :: "frame \<Rightarrow> string \<Rightarrow> if_exists \<Rightarrow> bool \<Rightarrow> store \<Rightarrow> error + store" where
  "to_sql df name mode index con =
     (let tbl = (if index then (''index'', map (\<lambda>i. Num (real i)) [0 ..< nrows df]) # df else df)
      in if name = [] then Inl ValueError
         else case con (fold_case name) of
           None \<Rightarrow> Inr (con(fold_case name \<mapsto> (name, tbl)))
         | Some (created, old) \<Rightarrow>
             (case mode of
                Fail \<Rightarrow> Inl ValueError
              | Replace \<Rightarrow>
                  (if created = name then Inr (con(fold_case name \<mapsto> (name, tbl)))
                   else Inl InvalidRequestError)
              | Append \<Rightarrow>
                  (if map fst old = map fst tbl
                   then Inr (con(fold_case name \<mapsto>
                               (created, map (\<lambda>((n, c), (n', c')). (n, c @ c')) (zip old tbl))))
                   else Inl OperationalError)))"

text \<open>\<open>ingest_db(df, table_name, engine)\<close>, line 20.\<close>

definition ingest_db :: "frame \<Rightarrow> string \<Rightarrow> store \<Rightarrow> error + store" where
  "ingest_db df table_name engine = to_sql df table_name Replace False engine"

text \<open>\<open>sub in s\<close> on Python strings: \<open>sub\<close> occurs in \<open>s\<close> as a contiguous run.\<close>

fun str_contains :: "string \<Rightarrow> string \<Rightarrow> bool" where
  "str_contains sub [] = (sub = [])"
| "str_contains sub (c # cs) = (take (length sub) (c # cs) = sub \<or> str_contains sub cs)"

text \<open>\<open>file[:-4]\<close>: everything but the last four characters, empty for a shorter name.\<close>

definition drop_last4 :: "string \<Rightarrow> string" where
  "drop_last4 file = take (length file - 4) file"

text \<open>
  What the loader reads from outside: \<open>os.listdir\<close> and \<open>pd.read_csv\<close>, each of which
  returns or raises. \<open>read_csv\<close> maps a path to the parsed frame of the file there.
\<close>

record os_env =
  listdir :: "string \<Rightarrow> error + string list"
  read_csv :: "string \<Rightarrow> error + frame"

text \<open>
  The loop of \<open>load_raw_data\<close>, lines 26 to 30. An exception ends the run; the tables
  written before it stay written, so the store is returned beside the outcome.
\<close>

fun load_loop :: "(string \<Rightarrow> error + frame) \<Rightarrow> string list \<Rightarrow> store \<Rightarrow> (error + unit) \<times> store" where
  "load_loop rd [] engine = (Inr (), engine)"
| "load_loop rd (file # rest) engine =
     (if str_contains ''.csv'' file then
        (case rd (''data/'' @ file) of
           Inl e \<Rightarrow> (Inl e, engine)
         | Inr df \<Rightarrow>
             (case ingest_db df (drop_last4 file) engine of
                Inl e \<Rightarrow> (Inl e, engine)
              | Inr engine' \<Rightarrow> load_loop rd rest engine'))
      else load_loop rd rest engine)"

text \<open>\<open>load_raw_data()\<close>; the timing and the log lines do not touch the store.\<close>

definition load_raw_data :: "os_env \<Rightarrow> store \<Rightarrow> (error + unit) \<times> store" where
  "load_raw_data env engine =
     (case listdir env ''data'' of
        Inl e \<Rightarrow> (Inl e, engine)
      | Inr files \<Rightarrow> load_loop (read_csv env) files engine)"

text \<open>
  The table name the specification describes: the file name with its extension, the part
  from the last dot on, removed.
\<close>

definition spec_table_name :: "string \<Rightarrow> string" where
  "spec_table_name file =
     (if CHR ''.'' \<in> set file then rev (tl (dropWhile (\<lambda>c. c \<noteq> CHR ''.'') (rev file))) else file)"

text \<open>A small data directory: one CSV file, one file the loop skips, one compressed CSV.\<close>

definition demo_env :: os_env where
  "demo_env =
     \<lparr>listdir = (\<lambda>d. if d = ''data''
                      then Inr [''purchases.csv'', ''notes.txt'', ''sales.csv.gz'']
                      else Inl FileNotFoundError),
      read_csv = (\<lambda>p. if p = ''data/purchases.csv''
                       then Inr [(''Brand'', [Num 1, Num 2]), (''Dollars'', [Num 10, Num 5])]
                       else if p = ''data/sales.csv.gz'' then Inr [(''Brand'', [Num 1])]
                       else Inl FileNotFoundError)\<rparr>"

section \<open>Vendor summary query (get\_vendor\_summary.py, lines 15 to 74)\<close>

text \<open>
  SQLite gives each column of a table an affinity from its declared type; \<open>to_sql\<close> declares
  an integer column \<open>BIGINT\<close> (affinity INTEGER), a float column \<open>FLOAT\<close> (REAL) and any other
  column \<open>TEXT\<close>. A column declared without a type has affinity BLOB. Columns are declared
  without a collation, so text is compared byte by byte.
\<close>

datatype affinity = INTEGER | REAL | NUMERIC | TEXT | BLOB

definition numeric_affinity :: "affinity \<Rightarrow> bool" where
  "numeric_affinity a = (a = INTEGER \<or> a = REAL \<or> a = NUMERIC)"

text \<open>
  Two functions of SQLite that the query relies on, taken as parameters.
  \<open>numeric_literal\<close> reads a text that has the form of a number as that number.
  \<open>sql_sum\<close> is the aggregate \<open>SUM\<close> over the values of a group, in row order; it gives NULL
  for a group without a value, rounds a float sum, and fails when an integer sum overflows.
\<close>

record sqlite =
  numeric_literal :: "string \<Rightarrow> cell option"
  sql_sum :: "cell list \<Rightarrow> error + cell"

text \<open>
  The base tables the query reads, a row as the cells of the columns the query names, and
  the affinities of the columns it compares.
\<close>

record purchase_row =
  p_VendorNumber :: cell
  p_VendorName :: cell
  p_Brand :: cell
  p_Description :: cell
  p_PurchasePrice :: cell
  p_Quantity :: cell
  p_Dollars :: cell

record price_row =
  pp_Brand :: cell
  pp_Price :: cell
  pp_Volume :: cell

record invoice_row =
  vi_VendorNumber :: cell
  vi_Freight :: cell

record sale_row =
  s_VendorNo :: cell
  s_Brand :: cell
  s_SalesQuantity :: cell
  s_SalesDollars :: cell
  s_SalesPrice :: cell
  s_ExciseTax :: cell

record schema =
  purchases_VendorNumber :: affinity
  purchases_Brand :: affinity
  purchases_PurchasePrice :: affinity
  purchase_prices_Brand :: affinity
  vendor_invoice_VendorNumber :: affinity
  sales_VendorNo :: affinity
  sales_Brand :: affinity

record database =
  purchases :: "purchase_row list"
  purchase_prices :: "price_row list"
  vendor_invoice :: "invoice_row list"
  Sales :: "sale_row list"
  types :: schema

record freight_summary =
  fs_VendorNumber :: cell
  fs_FreightCost :: cell

record purchase_summary =
  ps_VendorNumber :: cell
  ps_VendorName :: cell
  ps_Brand :: cell
  ps_Description :: cell
  ps_PurchasePrice :: cell
  ps_ActualPrice :: cell
  ps_Volume :: cell
  ps_TotalPurchaseQuantity :: cell
  ps_TotalPurchaseDollars :: cell

record sales_summary =
  ss_VendorNo :: cell
  ss_Brand :: cell
  ss_TotalSalesQuantity :: cell
  ss_TotalSalesDollars :: cell
  ss_TotalSalesPrice :: cell
  ss_TotalExciseTax :: cell

text \<open>A row of the query result, its columns in the order of the final SELECT.\<close>

record summary_row =
  VendorNumber :: cell
  VendorName :: cell
  Brand :: cell
  Description :: cell
  PurchasePrice :: cell
  ActualPrice :: cell
  Volume :: cell
  TotalPurchaseQuantity :: cell
  TotalPurchaseDollars :: cell
  TotalSalesQuantity :: cell
  TotalSalesDollars :: cell
  TotalSalesPrice :: cell
  TotalExciseTax :: cell
  FreightCost :: cell

text \<open>
  Before two columns are compared, the value of a column that has no numeric affinity is
  read as a number, where its text has the form of one, when the other column has a numeric
  affinity. \<open>coerce sq a b v\<close> is the value \<open>v\<close> of a column of affinity \<open>a\<close> as it is compared
  with a column of affinity \<open>b\<close>.
\<close>

definition coerce :: "sqlite \<Rightarrow> affinity \<Rightarrow> affinity \<Rightarrow> cell \<Rightarrow> cell" where
  "coerce sq a b v =
     (if numeric_affinity b \<and> \<not> numeric_affinity a
      then (case v of
              Str s \<Rightarrow> (case numeric_literal sq s of None \<Rightarrow> v | Some x \<Rightarrow> x)
            | _ \<Rightarrow> v)
      else v)"

text \<open>
  \<open>x = y\<close> in an ON clause, between a column of affinity \<open>a\<close> and one of affinity \<open>b\<close>: true
  only of two values that are equal after the conversion, neither of which is NULL.
\<close>

definition sql_eq :: "sqlite \<Rightarrow> affinity \<Rightarrow> cell \<Rightarrow> affinity \<Rightarrow> cell \<Rightarrow> bool" where
  "sql_eq sq a x b y =
     (coerce sq a b x \<noteq> NA \<and> coerce sq b a y \<noteq> NA \<and> coerce sq a b x = coerce sq b a y)"

text \<open>Text is ordered as its bytes are, a proper prefix before the longer text.\<close>

fun str_less :: "string \<Rightarrow> string \<Rightarrow> bool" where
  "str_less [] [] = False"
| "str_less [] (d # t) = True"
| "str_less (c # s) [] = False"
| "str_less (c # s) (d # t) =
     ((of_char c :: nat) < of_char d \<or> (c = d \<and> str_less s t))"

fun num_less :: "cell \<Rightarrow> cell \<Rightarrow> bool" where
  "num_less (Num x) (Num y) = (x < y)"
| "num_less NInf b = (b \<noteq> NInf)"
| "num_less a PInf = (a \<noteq> PInf)"
| "num_less a b = False"

text \<open>
  \<open>a < b\<close> on stored values: not true when one is NULL; every number is below every text;
  numbers are compared as numbers, texts as texts.
\<close>

definition sql_less :: "cell \<Rightarrow> cell \<Rightarrow> bool" where
  "sql_less a b =
     (a \<noteq> NA \<and> b \<noteq> NA \<and>
      (case a of
         Str s \<Rightarrow> (case b of Str t \<Rightarrow> str_less s t | _ \<Rightarrow> False)
       | _ \<Rightarrow> (case b of Str t \<Rightarrow> True | _ \<Rightarrow> num_less a b)))"

text \<open>
  \<open>x > 0\<close> in a WHERE clause, on a column of affinity \<open>a\<close>. The literal has no affinity: a
  TEXT column makes it the text \<open>0\<close>, and the comparison one of texts; for any other column
  it stays the number. A NULL does not pass.
\<close>

definition sql_gt0 :: "affinity \<Rightarrow> cell \<Rightarrow> bool" where
  "sql_gt0 a v = sql_less (if a = TEXT then Str ''0'' else Num 0) v"

text \<open>The first error among the results, or all their values.\<close>

fun sequence :: "(error + 'a) list \<Rightarrow> error + 'a list" where
  "sequence [] = Inr []"
| "sequence (x # xs) =
     (case x of
        Inl e \<Rightarrow> Inl e
      | Inr v \<Rightarrow> (case sequence xs of Inl e \<Rightarrow> Inl e | Inr vs \<Rightarrow> Inr (v # vs)))"

definition bind_err :: "error + 'a \<Rightarrow> ('a \<Rightarrow> error + 'b) \<Rightarrow> error + 'b" where
  "bind_err r f = (case r of Inl e \<Rightarrow> Inl e | Inr v \<Rightarrow> f v)"

text \<open>
  \<open>GROUP BY\<close>: one result row for each distinct key, built from the key and the rows that
  have it. Two NULLs are the same key. SQLite leaves the order of the groups open; here
  they come in the order in which their keys first occur.
\<close>

definition group_by :: "('r \<Rightarrow> 'k) \<Rightarrow> ('k \<Rightarrow> 'r list \<Rightarrow> 'g) \<Rightarrow> 'r list \<Rightarrow> 'g list" where
  "group_by key agg rows =
     map (\<lambda>k. agg k (filter (\<lambda>r. key r = k) rows)) (remdups (map key rows))"

definition inner_join :: "('l \<Rightarrow> 'r \<Rightarrow> bool) \<Rightarrow> 'l list \<Rightarrow> 'r list \<Rightarrow> ('l \<times> 'r) list" where
  "inner_join on ls rs = concat (map (\<lambda>l. map (Pair l) (filter (on l) rs)) ls)"

text \<open>\<open>LEFT JOIN\<close>: a left row without a match is kept once, its right columns NULL.\<close>

definition left_join :: "('l \<Rightarrow> 'r \<Rightarrow> bool) \<Rightarrow> 'l list \<Rightarrow> 'r list \<Rightarrow> ('l \<times> 'r option) list" where
  "left_join on ls rs =
     concat (map (\<lambda>l. case filter (on l) rs of
                          [] \<Rightarrow> [(l, None)]
                        | m # ms \<Rightarrow> map (\<lambda>r. (l, Some r)) (m # ms)) ls)"

text \<open>
  \<open>ORDER BY key DESC\<close>: NULL is below every value. SQL leaves the order of rows with equal
  keys open; this sort keeps them in the order they come in.
\<close>

definition sql_le :: "cell \<Rightarrow> cell \<Rightarrow> bool" where
  "sql_le a b = (a = NA \<or> (b \<noteq> NA \<and> \<not> sql_less b a))"

fun insert_desc :: "('a \<Rightarrow> cell) \<Rightarrow> 'a \<Rightarrow> 'a list \<Rightarrow> 'a list" where
  "insert_desc key x [] = [x]"
| "insert_desc key x (y # ys) =
     (if sql_le (key y) (key x) then x # y # ys else y # insert_desc key x ys)"

fun order_by_desc :: "('a \<Rightarrow> cell) \<Rightarrow> 'a list \<Rightarrow> 'a list" where
  "order_by_desc key [] = []"
| "order_by_desc key (x # xs) = insert_desc key x (order_by_desc key xs)"

text \<open>The three common table expressions. A failing \<open>SUM\<close> fails the expression.\<close>

definition FreightSummary :: "sqlite \<Rightarrow> database \<Rightarrow> error + freight_summary list" where
  "FreightSummary sq db =
     sequence (group_by vi_VendorNumber
       (\<lambda>k g. bind_err (sql_sum sq (map vi_Freight g)) (\<lambda>freight.
                 Inr \<lparr>fs_VendorNumber = k, fs_FreightCost = freight\<rparr>))
       (vendor_invoice db))"

definition PurchaseSummary :: "sqlite \<Rightarrow> database \<Rightarrow> error + purchase_summary list" where
  "PurchaseSummary sq db =
     sequence (group_by
       (\<lambda>(p, pp). (p_VendorNumber p, p_VendorName p, p_Brand p, p_Description p,
                   p_PurchasePrice p, pp_Price pp, pp_Volume pp))
       (\<lambda>(vno, vname, brand, descr, price, actual, vol) g.
          bind_err (sql_sum sq (map (\<lambda>(p, pp). p_Quantity p) g)) (\<lambda>quantity.
          bind_err (sql_sum sq (map (\<lambda>(p, pp). p_Dollars p) g)) (\<lambda>dollars.
            Inr \<lparr>ps_VendorNumber = vno, ps_VendorName = vname, ps_Brand = brand,
                 ps_Description = descr, ps_PurchasePrice = price, ps_ActualPrice = actual,
                 ps_Volume = vol, ps_TotalPurchaseQuantity = quantity,
                 ps_TotalPurchaseDollars = dollars\<rparr>)))
       (filter (\<lambda>(p, pp). sql_gt0 (purchases_PurchasePrice (types db)) (p_PurchasePrice p))
          (inner_join
             (\<lambda>p pp. sql_eq sq (purchases_Brand (types db)) (p_Brand p)
                               (purchase_prices_Brand (types db)) (pp_Brand pp))
             (purchases db) (purchase_prices db))))"

definition SalesSummary :: "sqlite \<Rightarrow> database \<Rightarrow> error + sales_summary list" where
  "SalesSummary sq db =
     sequence (group_by (\<lambda>s. (s_VendorNo s, s_Brand s))
       (\<lambda>(vno, brand) g.
          bind_err (sql_sum sq (map s_SalesQuantity g)) (\<lambda>quantity.
          bind_err (sql_sum sq (map s_SalesDollars g)) (\<lambda>dollars.
          bind_err (sql_sum sq (map s_SalesPrice g)) (\<lambda>price.
          bind_err (sql_sum sq (map s_ExciseTax g)) (\<lambda>tax.
            Inr \<lparr>ss_VendorNo = vno, ss_Brand = brand, ss_TotalSalesQuantity = quantity,
                 ss_TotalSalesDollars = dollars, ss_TotalSalesPrice = price,
                 ss_TotalExciseTax = tax\<rparr>)))))
       (Sales db))"

text \<open>
  The ON clauses of the two left joins. A column of a common table expression has the
  affinity of the table column it selects.
\<close>

definition on_sales :: "sqlite \<Rightarrow> schema \<Rightarrow> purchase_summary \<Rightarrow> sales_summary \<Rightarrow> bool" where
  "on_sales sq t ps ss =
     (sql_eq sq (purchases_VendorNumber t) (ps_VendorNumber ps) (sales_VendorNo t) (ss_VendorNo ss) \<and>
      sql_eq sq (purchases_Brand t) (ps_Brand ps) (sales_Brand t) (ss_Brand ss))"

definition on_freight ::
  "sqlite \<Rightarrow> schema \<Rightarrow> purchase_summary \<times> sales_summary option \<Rightarrow> freight_summary \<Rightarrow> bool" where
  "on_freight sq t l fs =
     sql_eq sq (purchases_VendorNumber t) (ps_VendorNumber (fst l))
       (vendor_invoice_VendorNumber t) (fs_VendorNumber fs)"

text \<open>The final SELECT list, over a joined row.\<close>

definition select_row :: "(purchase_summary \<times> sales_summary option) \<times> freight_summary option \<Rightarrow> summary_row" where
  "select_row j =
     (case j of ((ps, ss), fs) \<Rightarrow>
        \<lparr>VendorNumber = ps_VendorNumber ps, VendorName = ps_VendorName ps, Brand = ps_Brand ps,
         Description = ps_Description ps, PurchasePrice = ps_PurchasePrice ps,
         ActualPrice = ps_ActualPrice ps, Volume = ps_Volume ps,
         TotalPurchaseQuantity = ps_TotalPurchaseQuantity ps,
         TotalPurchaseDollars = ps_TotalPurchaseDollars ps,
         TotalSalesQuantity = (case ss of None \<Rightarrow> NA | Some s \<Rightarrow> ss_TotalSalesQuantity s),
         TotalSalesDollars = (case ss of None \<Rightarrow> NA | Some s \<Rightarrow> ss_TotalSalesDollars s),
         TotalSalesPrice = (case ss of None \<Rightarrow> NA | Some s \<Rightarrow> ss_TotalSalesPrice s),
         TotalExciseTax = (case ss of None \<Rightarrow> NA | Some s \<Rightarrow> ss_TotalExciseTax s),
         FreightCost = (case fs of None \<Rightarrow> NA | Some f \<Rightarrow> fs_FreightCost f)\<rparr>)"

text \<open>
  The query of \<open>create_vendor_summary\<close>: its result rows, or the error of a failing \<open>SUM\<close>.
  SQLite computes SalesSummary and FreightSummary when the first row of PurchaseSummary is
  joined, so neither is computed, and neither can fail, when PurchaseSummary is empty.
\<close>

definition vendor_summary_query :: "sqlite \<Rightarrow> database \<Rightarrow> error + summary_row list" where
  "vendor_summary_query sq db =
     bind_err (PurchaseSummary sq db) (\<lambda>ps.
       if ps = [] then Inr []
       else
         bind_err (SalesSummary sq db) (\<lambda>ss.
         bind_err (FreightSummary sq db) (\<lambda>fs.
           Inr (map select_row
                  (order_by_desc (\<lambda>j. ps_TotalPurchaseDollars (fst (fst j)))
                     (left_join (on_freight sq (types db))
                        (left_join (on_sales sq (types db)) ps ss) fs))))))"

text \<open>The purchase columns of a result row, as a row of PurchaseSummary.\<close>

definition purchase_part :: "summary_row \<Rightarrow> purchase_summary" where
  "purchase_part r =
     \<lparr>ps_VendorNumber = VendorNumber r, ps_VendorName = VendorName r, ps_Brand = Brand r,
      ps_Description = Description r, ps_PurchasePrice = PurchasePrice r,
      ps_ActualPrice = ActualPrice r, ps_Volume = Volume r,
      ps_TotalPurchaseQuantity = TotalPurchaseQuantity r,
      ps_TotalPurchaseDollars = TotalPurchaseDollars r\<rparr>"

definition vendor_brand :: "summary_row \<Rightarrow> cell \<times> cell" where
  "vendor_brand r = (VendorNumber r, Brand r)"

definition ps_vendor_brand :: "purchase_summary \<Rightarrow> cell \<times> cell" where
  "ps_vendor_brand ps = (ps_VendorNumber ps, ps_Brand ps)"

text \<open>The grouping columns of a PurchaseSummary row.\<close>

definition ps_key ::
  "purchase_summary \<Rightarrow> cell \<times> cell \<times> cell \<times> cell \<times> cell \<times> cell \<times> cell" where
  "ps_key ps = (ps_VendorNumber ps, ps_VendorName ps, ps_Brand ps, ps_Description ps,
                ps_PurchasePrice ps, ps_ActualPrice ps, ps_Volume ps)"

text \<open>
  Two columns are compared as stored, without conversion, when both or neither have a
  numeric affinity; the join columns of the query are, when that holds of each pair that
  an ON clause of a left join compares.
\<close>

definition compared_as_stored :: "affinity \<Rightarrow> affinity \<Rightarrow> bool" where
  "compared_as_stored a b = (numeric_affinity a = numeric_affinity b)"

definition join_keys_as_stored :: "schema \<Rightarrow> bool" where
  "join_keys_as_stored t =
     (compared_as_stored (purchases_VendorNumber t) (sales_VendorNo t) \<and>
      compared_as_stored (purchases_Brand t) (sales_Brand t) \<and>
      compared_as_stored (purchases_VendorNumber t) (vendor_invoice_VendorNumber t))"

text \<open>A price that is a number above zero; a price that is a number or NULL.\<close>

definition positive_number :: "cell \<Rightarrow> bool" where
  "positive_number c = (case c of Num x \<Rightarrow> 0 < x | PInf \<Rightarrow> True | _ \<Rightarrow> False)"

definition number_or_null :: "cell \<Rightarrow> bool" where
  "number_or_null c = (case c of Str s \<Rightarrow> False | _ \<Rightarrow> True)"

text \<open>
  SQLite on the values of the examples below: it reads a text of decimal digits, with or
  without a fraction part, as that number, and the sum of a few small integers is exact.
\<close>

definition digit :: "char \<Rightarrow> nat option" where
  "digit c = (let n = (of_char c :: nat) in if 48 \<le> n \<and> n \<le> 57 then Some (n - 48) else None)"

fun digits :: "string \<Rightarrow> nat option" where
  "digits [] = None"
| "digits s =
     (if list_all (\<lambda>c. digit c \<noteq> None) s
      then Some (foldl (\<lambda>n c. 10 * n + the (digit c)) 0 s) else None)"

definition decimal :: "string \<Rightarrow> cell option" where
  "decimal s =
     (let whole = takeWhile (\<lambda>c. c \<noteq> CHR ''.'') s; rest = dropWhile (\<lambda>c. c \<noteq> CHR ''.'') s
      in case digits whole of
           None \<Rightarrow> None
         | Some n \<Rightarrow>
             (if rest = [] then Some (Num (real n))
              else case digits (tl rest) of
                     None \<Rightarrow> None
                   | Some m \<Rightarrow> Some (Num (real n + real m / 10 ^ length (tl rest)))))"

definition small_sum :: "cell list \<Rightarrow> error + cell" where
  "small_sum vs =
     (let xs = concat (map (\<lambda>v. case v of Num x \<Rightarrow> [x] | _ \<Rightarrow> []) vs)
      in Inr (if xs = [] then NA else Num (sum_list xs)))"

definition demo_sqlite :: sqlite where
  "demo_sqlite = \<lparr>numeric_literal = decimal, sql_sum = small_sum\<rparr>"

definition numeric_schema :: schema where
  "numeric_schema =
     \<lparr>purchases_VendorNumber = INTEGER, purchases_Brand = INTEGER, purchases_PurchasePrice = REAL,
      purchase_prices_Brand = INTEGER, vendor_invoice_VendorNumber = INTEGER,
      sales_VendorNo = INTEGER, sales_Brand = INTEGER\<rparr>"

text \<open>One vendor buys one brand at two prices, and once more at price zero.\<close>

definition two_price_db :: database where
  "two_price_db =
     \<lparr>purchases =
        [\<lparr>p_VendorNumber = Num 1, p_VendorName = Str ''ACME '', p_Brand = Num 7,
          p_Description = Str ''Gin'', p_PurchasePrice = Num 10, p_Quantity = Num 2,
          p_Dollars = Num 20\<rparr>,
         \<lparr>p_VendorNumber = Num 1, p_VendorName = Str ''ACME '', p_Brand = Num 7,
          p_Description = Str ''Gin'', p_PurchasePrice = Num 12, p_Quantity = Num 1,
          p_Dollars = Num 12\<rparr>,
         \<lparr>p_VendorNumber = Num 1, p_VendorName = Str ''ACME '', p_Brand = Num 7,
          p_Description = Str ''Gin'', p_PurchasePrice = Num 0, p_Quantity = Num 5,
          p_Dollars = Num 0\<rparr>],
      purchase_prices = [\<lparr>pp_Brand = Num 7, pp_Price = Num 15, pp_Volume = Str ''750''\<rparr>],
      vendor_invoice = [],
      Sales = [],
      types = numeric_schema\<rparr>"

text \<open>
  The same vendor and brand where one price of the file was not a number, so that \<open>to_sql\<close>
  made the price column a TEXT column: a purchase priced \<open>0.00\<close> and one priced \<open>free\<close>.
\<close>

definition text_price_db :: database where
  "text_price_db =
     \<lparr>purchases =
        [\<lparr>p_VendorNumber = Num 1, p_VendorName = Str ''ACME '', p_Brand = Num 7,
          p_Description = Str ''Gin'', p_PurchasePrice = Str ''0.00'', p_Quantity = Num 2,
          p_Dollars = Num 0\<rparr>,
         \<lparr>p_VendorNumber = Num 1, p_VendorName = Str ''ACME '', p_Brand = Num 7,
          p_Description = Str ''Gin'', p_PurchasePrice = Str ''free'', p_Quantity = Num 1,
          p_Dollars = Num 0\<rparr>],
      purchase_prices = [\<lparr>pp_Brand = Num 7, pp_Price = Num 15, pp_Volume = Str ''750''\<rparr>],
      vendor_invoice = [],
      Sales = [],
      types = numeric_schema\<lparr>purchases_PurchasePrice := TEXT\<rparr>\<rparr>"

text \<open>
  A sales file whose brand column is text, holding the brand of the purchase as \<open>7\<close> and
  as \<open>07\<close>, beside a purchases table whose brand column is an integer column.
\<close>

definition text_brand_db :: database where
  "text_brand_db =
     \<lparr>purchases =
        [\<lparr>p_VendorNumber = Num 1, p_VendorName = Str ''ACME '', p_Brand = Num 7,
          p_Description = Str ''Gin'', p_PurchasePrice = Num 10, p_Quantity = Num 2,
          p_Dollars = Num 20\<rparr>],
      purchase_prices = [\<lparr>pp_Brand = Num 7, pp_Price = Num 15, pp_Volume = Str ''750''\<rparr>],
      vendor_invoice = [],
      Sales =
        [\<lparr>s_VendorNo = Num 1, s_Brand = Str ''7'', s_SalesQuantity = Num 3, s_SalesDollars = Num 45,
          s_SalesPrice = Num 15, s_ExciseTax = Num 1\<rparr>,
         \<lparr>s_VendorNo = Num 1, s_Brand = Str ''07'', s_SalesQuantity = Num 1, s_SalesDollars = Num 15,
          s_SalesPrice = Num 15, s_ExciseTax = Num 1\<rparr>],
      types = numeric_schema\<lparr>sales_Brand := TEXT\<rparr>\<rparr>"

section \<open>Cleaning step and script (get\_vendor\_summary.py, lines 79 to 114)\<close>

text \<open>\<open>pd.read_sql_query\<close>: the result rows as a frame, NULL as the missing value.\<close>

definition read_sql_query :: "summary_row list \<Rightarrow> frame" where
  "read_sql_query rows =
     [(''VendorNumber'', map VendorNumber rows),
      (''VendorName'', map VendorName rows),
      (''Brand'', map Brand rows),
      (''Description'', map Description rows),
      (''PurchasePrice'', map PurchasePrice rows),
      (''ActualPrice'', map ActualPrice rows),
      (''Volume'', map Volume rows),
      (''TotalPurchaseQuantity'', map TotalPurchaseQuantity rows),
      (''TotalPurchaseDollars'', map TotalPurchaseDollars rows),
      (''TotalSalesQuantity'', map TotalSalesQuantity rows),
      (''TotalSalesDollars'', map TotalSalesDollars rows),
      (''TotalSalesPrice'', map TotalSalesPrice rows),
      (''TotalExciseTax'', map TotalExciseTax rows),
      (''FreightCost'', map FreightCost rows)]"

text \<open>
  The objects the script handles. Names are bound to objects by reference, so a frame that
  two names denote is changed for both; the heap maps a reference to its object.
\<close>

datatype pyobj = Frame frame | Connection database | Function string | Module string

type_synonym addr = nat

record pystate =
  heap :: "addr \<Rightarrow> pyobj option"
  globals :: "string \<Rightarrow> addr option"
  next_addr :: addr
  tables :: store

text \<open>
  A statement or expression: from a state, an exception or a value, and the state it
  leaves. What was changed before an exception stays changed.
\<close>

type_synonym 'a py = "pystate \<Rightarrow> (error + 'a) \<times> pystate"

definition py_return :: "'a \<Rightarrow> 'a py" where
  "py_return x st = (Inr x, st)"

definition py_raise :: "error \<Rightarrow> 'a py" where
  "py_raise e st = (Inl e, st)"

definition py_bind :: "'a py \<Rightarrow> ('a \<Rightarrow> 'b py) \<Rightarrow> 'b py" where
  "py_bind m f st = (case m st of (Inl e, st') \<Rightarrow> (Inl e, st') | (Inr x, st') \<Rightarrow> f x st')"

definition py_lift :: "error + 'a \<Rightarrow> 'a py" where
  "py_lift r st = (r, st)"

text \<open>Reading a module-level name: NameError when nothing is bound to it.\<close>

definition name_lookup :: "string \<Rightarrow> addr py" where
  "name_lookup n st = (case globals st n of None \<Rightarrow> (Inl NameError, st) | Some a \<Rightarrow> (Inr a, st))"

definition name_bind :: "string \<Rightarrow> addr \<Rightarrow> unit py" where
  "name_bind n a st = (Inr (), st\<lparr>globals := (globals st)(n \<mapsto> a)\<rparr>)"

definition alloc :: "pyobj \<Rightarrow> addr py" where
  "alloc obj st =
     (Inr (next_addr st), st\<lparr>heap := (heap st)(next_addr st \<mapsto> obj), next_addr := Suc (next_addr st)\<rparr>)"

text \<open>\<open>obj[col]\<close>: only a frame can be subscripted, and the column must be there.\<close>

definition getitem :: "addr \<Rightarrow> string \<Rightarrow> column py" where
  "getitem a col st =
     (case heap st a of
        Some (Frame f) \<Rightarrow> (case map_of f col of None \<Rightarrow> (Inl KeyError, st) | Some c \<Rightarrow> (Inr c, st))
      | _ \<Rightarrow> (Inl TypeError, st))"

text \<open>\<open>obj[col] = v\<close>: replaces the column in place, or appends it as the last column.\<close>

definition setitem :: "addr \<Rightarrow> string \<Rightarrow> column \<Rightarrow> unit py" where
  "setitem a col v st =
     (case heap st a of
        Some (Frame f) \<Rightarrow> (Inr (), st\<lparr>heap := (heap st)(a \<mapsto> Frame (AList.update col v f))\<rparr>)
      | _ \<Rightarrow> (Inl TypeError, st))"

text \<open>\<open>df.fillna(v, inplace=True)\<close>: every missing cell of every column becomes \<open>v\<close>.\<close>

definition fill_cell :: "cell \<Rightarrow> cell \<Rightarrow> cell" where
  "fill_cell v c = (if c = NA then v else c)"

definition fillna_inplace :: "addr \<Rightarrow> cell \<Rightarrow> unit py" where
  "fillna_inplace a v st =
     (case heap st a of
        Some (Frame f) \<Rightarrow>
          (Inr (), st\<lparr>heap := (heap st)(a \<mapsto> Frame (map (\<lambda>(n, c). (n, map (fill_cell v) c)) f))\<rparr>)
      | _ \<Rightarrow> (Inl AttributeError, st))"

text \<open>\<open>obj.head()\<close>, whose value is only logged: a frame has the method.\<close>

definition head_method :: "addr \<Rightarrow> unit py" where
  "head_method a st =
     (case heap st a of Some (Frame f) \<Rightarrow> (Inr (), st) | _ \<Rightarrow> (Inl AttributeError, st))"

text \<open>
  \<open>Series.astype('float64')\<close>: a number stays, a missing value becomes NaN, a string is
  parsed by Python's \<open>float\<close>, given as \<open>py_float\<close>, which raises ValueError on what it
  cannot read.
\<close>

definition to_float :: "(string \<Rightarrow> cell option) \<Rightarrow> cell \<Rightarrow> error + cell" where
  "to_float py_float c =
     (case c of
        Str s \<Rightarrow> (case py_float s of None \<Rightarrow> Inl ValueError | Some x \<Rightarrow> Inr x)
      | _ \<Rightarrow> Inr c)"

definition astype_float64 :: "(string \<Rightarrow> cell option) \<Rightarrow> column \<Rightarrow> error + column" where
  "astype_float64 py_float col = sequence (map (to_float py_float) col)"

text \<open>
  \<open>str.strip()\<close>: leading and trailing whitespace removed (the ASCII whitespace characters:
  tab to carriage return, the four separators and the space).
\<close>

definition is_space :: "char \<Rightarrow> bool" where
  "is_space c = (let n = (of_char c :: nat) in (9 \<le> n \<and> n \<le> 13) \<or> (28 \<le> n \<and> n \<le> 32))"

definition py_strip :: "string \<Rightarrow> string" where
  "py_strip s = rev (dropWhile is_space (rev (dropWhile is_space s)))"

text \<open>
  \<open>Series.str.strip()\<close>. The \<open>.str\<close> accessor raises AttributeError unless the column,
  missing values aside, is empty or holds a string; it strips each string and gives the
  missing value for every cell that is not a string.
\<close>

definition is_str :: "cell \<Rightarrow> bool" where
  "is_str c = (case c of Str s \<Rightarrow> True | _ \<Rightarrow> False)"

definition strip_cell :: "cell \<Rightarrow> cell" where
  "strip_cell c = (case c of Str s \<Rightarrow> Str (py_strip s) | _ \<Rightarrow> NA)"

definition str_strip :: "column \<Rightarrow> error + column" where
  "str_strip col =
     (if filter (\<lambda>c. c \<noteq> NA) col = [] \<or> list_ex is_str col
      then Inr (map strip_cell col) else Inl AttributeError)"

text \<open>
  Float arithmetic on cells. \<open>rnd\<close> rounds the exact result of an operation on two finite
  numbers to a float64 (an infinity on overflow); infinities and NaN follow IEEE 754, a
  string operand raises TypeError. No operation tests its divisor.
\<close>

fun cell_sub :: "(real \<Rightarrow> cell) \<Rightarrow> cell \<Rightarrow> cell \<Rightarrow> error + cell" where
  "cell_sub rnd (Str s) b = Inl TypeError"
| "cell_sub rnd a (Str s) = Inl TypeError"
| "cell_sub rnd NA b = Inr NA"
| "cell_sub rnd a NA = Inr NA"
| "cell_sub rnd (Num x) (Num y) = Inr (rnd (x - y))"
| "cell_sub rnd (Num x) PInf = Inr NInf"
| "cell_sub rnd (Num x) NInf = Inr PInf"
| "cell_sub rnd PInf PInf = Inr NA"
| "cell_sub rnd PInf b = Inr PInf"
| "cell_sub rnd NInf NInf = Inr NA"
| "cell_sub rnd NInf b = Inr NInf"

fun cell_div :: "(real \<Rightarrow> cell) \<Rightarrow> cell \<Rightarrow> cell \<Rightarrow> error + cell" where
  "cell_div rnd (Str s) b = Inl TypeError"
| "cell_div rnd a (Str s) = Inl TypeError"
| "cell_div rnd NA b = Inr NA"
| "cell_div rnd a NA = Inr NA"
| "cell_div rnd (Num x) (Num y) =
     Inr (if y = 0 then (if x = 0 then NA else if 0 < x then PInf else NInf) else rnd (x / y))"
| "cell_div rnd (Num x) b = Inr (Num 0)"
| "cell_div rnd PInf (Num y) = Inr (if 0 \<le> y then PInf else NInf)"
| "cell_div rnd NInf (Num y) = Inr (if 0 \<le> y then NInf else PInf)"
| "cell_div rnd a b = Inr NA"

fun cell_mul :: "(real \<Rightarrow> cell) \<Rightarrow> cell \<Rightarrow> cell \<Rightarrow> error + cell" where
  "cell_mul rnd (Str s) b = Inl TypeError"
| "cell_mul rnd a (Str s) = Inl TypeError"
| "cell_mul rnd NA b = Inr NA"
| "cell_mul rnd a NA = Inr NA"
| "cell_mul rnd (Num x) (Num y) = Inr (rnd (x * y))"
| "cell_mul rnd (Num x) PInf = Inr (if x = 0 then NA else if 0 < x then PInf else NInf)"
| "cell_mul rnd (Num x) NInf = Inr (if x = 0 then NA else if 0 < x then NInf else PInf)"
| "cell_mul rnd PInf (Num y) = Inr (if y = 0 then NA else if 0 < y then PInf else NInf)"
| "cell_mul rnd NInf (Num y) = Inr (if y = 0 then NA else if 0 < y then NInf else PInf)"
| "cell_mul rnd PInf PInf = Inr PInf"
| "cell_mul rnd NInf NInf = Inr PInf"
| "cell_mul rnd a b = Inr NInf"

text \<open>An operator between two columns of one frame, row by row, and with a scalar.\<close>

definition col_binop :: "(cell \<Rightarrow> cell \<Rightarrow> error + cell) \<Rightarrow> column \<Rightarrow> column \<Rightarrow> error + column" where
  "col_binop op a b = sequence (map (\<lambda>(x, y). op x y) (zip a b))"

definition col_scalar :: "(cell \<Rightarrow> cell \<Rightarrow> error + cell) \<Rightarrow> column \<Rightarrow> cell \<Rightarrow> error + column" where
  "col_scalar op a k = sequence (map (\<lambda>x. op x k) a)"

text \<open>\<open>vendor_sales_summary[col]\<close> and \<open>vendor_sales_summary[col] = v\<close>, on the module-level name.\<close>

definition global_col :: "string \<Rightarrow> string \<Rightarrow> column py" where
  "global_col n col = py_bind (name_lookup n) (\<lambda>g. getitem g col)"

definition global_set :: "string \<Rightarrow> string \<Rightarrow> column \<Rightarrow> unit py" where
  "global_set n col v = py_bind (name_lookup n) (\<lambda>g. setitem g col v)"

text \<open>
  \<open>create_vendor_summary(conn)\<close>, lines 13 to 76, read with the body indented as a function
  body (as written, line 15 is indented too far and line 76 not at all, and the file does
  not compile): the query is run on the connection and its result is a new frame. pandas
  raises DatabaseError when SQLite fails to run the query.
\<close>

definition create_vendor_summary :: "sqlite \<Rightarrow> addr \<Rightarrow> addr py" where
  "create_vendor_summary sq conn st =
     (case heap st conn of
        Some (Connection db) \<Rightarrow>
          (case vendor_summary_query sq db of
             Inl e \<Rightarrow> (Inl DatabaseError, st)
           | Inr rows \<Rightarrow> alloc (Frame (read_sql_query rows)) st)
      | _ \<Rightarrow> (Inl AttributeError, st))"

text \<open>The column \<open>col\<close> of the frame at \<open>a\<close>, when there is one.\<close>

definition column_at :: "pystate \<Rightarrow> addr \<Rightarrow> string \<Rightarrow> column option" where
  "column_at st a col = (case heap st a of Some (Frame f) \<Rightarrow> map_of f col | _ \<Rightarrow> None)"

text \<open>Line 82: \<open>df['Volume'] = df['Volume'].astype('float64')\<close>.\<close>

definition astype_volume :: "(string \<Rightarrow> cell option) \<Rightarrow> addr \<Rightarrow> unit py" where
  "astype_volume py_float df =
     py_bind (getitem df ''Volume'') (\<lambda>vol.
     py_bind (py_lift (astype_float64 py_float vol)) (\<lambda>v.
     setitem df ''Volume'' v))"

text \<open>Lines 88 and 89: \<open>df[col] = df[col].str.strip()\<close>.\<close>

definition strip_column :: "addr \<Rightarrow> string \<Rightarrow> unit py" where
  "strip_column df col =
     py_bind (getitem df col) (\<lambda>c.
     py_bind (py_lift (str_strip c)) (\<lambda>v.
     setitem df col v))"

text \<open>
  \<open>vendor_sales_summary[a] op vendor_sales_summary[b]\<close>: both operands are columns of the
  frame that the module-level name denotes.
\<close>

definition global_binop :: "(cell \<Rightarrow> cell \<Rightarrow> error + cell) \<Rightarrow> string \<Rightarrow> string \<Rightarrow> column py" where
  "global_binop op a b =
     py_bind (global_col ''vendor_sales_summary'' a) (\<lambda>x.
     py_bind (global_col ''vendor_sales_summary'' b) (\<lambda>y.
     py_lift (col_binop op x y)))"

text \<open>Lines 92 to 95, each an assignment to a column of \<open>vendor_sales_summary\<close>.\<close>

definition gross_profit :: "(real \<Rightarrow> cell) \<Rightarrow> unit py" where
  "gross_profit rnd =
     py_bind (global_binop (cell_sub rnd) ''TotalSalesDollars'' ''TotalPurchaseDollars'') (\<lambda>v.
     global_set ''vendor_sales_summary'' ''GrossProfit'' v)"

definition profit_margin :: "(real \<Rightarrow> cell) \<Rightarrow> unit py" where
  "profit_margin rnd =
     py_bind (global_binop (cell_div rnd) ''GrossProfit'' ''TotalSalesDollars'') (\<lambda>q.
     py_bind (py_lift (col_scalar (cell_mul rnd) q (Num 100))) (\<lambda>v.
     global_set ''vendor_sales_summary'' ''ProfitMargin'' v))"

definition stock_turnover :: "(real \<Rightarrow> cell) \<Rightarrow> unit py" where
  "stock_turnover rnd =
     py_bind (global_binop (cell_div rnd) ''TotalSalesQuantity'' ''TotalPurchaseQuantity'') (\<lambda>v.
     global_set ''vendor_sales_summary'' ''StockTurnover'' v)"

definition sales_to_purchase_ratio :: "(real \<Rightarrow> cell) \<Rightarrow> unit py" where
  "sales_to_purchase_ratio rnd =
     py_bind (global_binop (cell_div rnd) ''TotalSalesDollars'' ''TotalPurchaseDollars'') (\<lambda>v.
     global_set ''vendor_sales_summary'' ''SalesToPurchaseRatio'' v)"

text \<open>
  \<open>clean_data(df)\<close>, lines 79 to 97. Lines 82 to 89 work on the argument \<open>df\<close>; lines 92 to
  95 read and write the module-level name \<open>vendor_sales_summary\<close>; line 97 returns \<open>df\<close>.
\<close>

definition clean_data :: "(string \<Rightarrow> cell option) \<Rightarrow> (real \<Rightarrow> cell) \<Rightarrow> addr \<Rightarrow> addr py" where
  "clean_data py_float rnd df =
     py_bind (astype_volume py_float df) (\<lambda>_.
     py_bind (fillna_inplace df (Num 0)) (\<lambda>_.
     py_bind (strip_column df ''VendorName'') (\<lambda>_.
     py_bind (strip_column df ''Description'') (\<lambda>_.
     py_bind (gross_profit rnd) (\<lambda>_.
     py_bind (profit_margin rnd) (\<lambda>_.
     py_bind (stock_turnover rnd) (\<lambda>_.
     py_bind (sales_to_purchase_ratio rnd) (\<lambda>_.
     py_return df))))))))"


text \<open>
  The \<open>__main__\<close> block, lines 100 to 114, on the database \<open>db\<close> that \<open>inventory.db\<close> holds.
  The calls of \<open>logging.info\<close> write to the log only; their arguments are evaluated. In the
  last statement \<open>ingest\<close> is read as a module-level name, which nothing binds.
\<close>

definition main :: "sqlite \<Rightarrow> (string \<Rightarrow> cell option) \<Rightarrow> (real \<Rightarrow> cell) \<Rightarrow> database \<Rightarrow> unit py" where
  "main sq py_float rnd db =
     py_bind (alloc (Connection db)) (\<lambda>c.
     py_bind (name_bind ''conn'' c) (\<lambda>_.
     py_bind (name_lookup ''conn'') (\<lambda>c1.
     py_bind (create_vendor_summary sq c1) (\<lambda>s.
     py_bind (name_bind ''summary_df'' s) (\<lambda>_.
     py_bind (name_lookup ''summary_df'') (\<lambda>s1.
     py_bind (head_method s1) (\<lambda>_.
     py_bind (name_lookup ''conn'') (\<lambda>c2.
     py_bind (clean_data py_float rnd c2) (\<lambda>cl.
     py_bind (name_bind ''clean_df'' cl) (\<lambda>_.
     py_bind (name_lookup ''clean_data'') (\<lambda>fn.
     py_bind (head_method fn) (\<lambda>_.
     py_bind (name_lookup ''ingest'') (\<lambda>m.
     py_raise AttributeError)))))))))))))"






text \<open>A float that is not a finite number: NaN or an infinity.\<close>

definition nonfinite :: "cell \<Rightarrow> bool" where
  "nonfinite c = (c = NA \<or> c = PInf \<or> c = NInf)"

section \<open>Properties of the loader\<close>

lemma ingest_db_Inr:
  "ingest_db df t engine = Inr engine' \<Longrightarrow>
     t \<noteq> [] \<and> engine' = engine(fold_case t \<mapsto> (t, df)) \<and>
     (engine (fold_case t) = None \<or> (\<exists>old. engine (fold_case t) = Some (t, old)))"
  by (auto simp: ingest_db_def to_sql_def split: option.splits if_splits)

lemma ingest_db_same:
  "t \<noteq> [] \<Longrightarrow> engine (fold_case t) = None \<or> (\<exists>old. engine (fold_case t) = Some (t, old)) \<Longrightarrow>
     ingest_db df t engine = Inr (engine(fold_case t \<mapsto> (t, df)))"
  by (auto simp: ingest_db_def to_sql_def split: option.splits)

text \<open>A table that is in the store keeps the name it was created under through a run.\<close>

lemma load_loop_name:
  "load_loop rd files engine = (out, engine') \<Longrightarrow> engine k = Some (n, t) \<Longrightarrow>
     \<exists>t'. engine' k = Some (n, t')"
proof (induction files arbitrary: engine t)
  case Nil
  then show ?case by simp
next
  case (Cons f rest)
  show ?case
  proof (cases "str_contains ''.csv'' f")
    case False
    then show ?thesis using Cons by simp
  next
    case True
    show ?thesis
    proof (cases "rd (''data/'' @ f)")
      case (Inl e)
      then show ?thesis using True Cons.prems by auto
    next
      case (Inr df)
      show ?thesis
      proof (cases "ingest_db df (drop_last4 f) engine")
        case (Inl e)
        then show ?thesis using True Inr Cons.prems by auto
      next
        case step: (Inr e1)
        note i = ingest_db_Inr [OF step]
        have run: "load_loop rd rest e1 = (out, engine')"
          using True Inr step Cons.prems by simp
        have "\<exists>t1. e1 k = Some (n, t1)"
          using i Cons.prems(2) by (cases "k = fold_case (drop_last4 f)") auto
        then obtain t1 where "e1 k = Some (n, t1)" ..
        from Cons.IH [OF run this] show ?thesis .
      qed
    qed
  qed
qed

text \<open>
  A run from any store that lies, table by table, between the store a first run started
  from and the store it left ends as that first run did.
\<close>

lemma load_loop_between:
  "load_loop rd files engine = (out, engine') \<Longrightarrow>
   (\<forall>k. u k = engine k \<or> u k = engine' k) \<Longrightarrow>
     load_loop rd files u = (out, engine')"
proof (induction files arbitrary: engine u)
  case Nil
  then have "u = engine" by (auto simp: fun_eq_iff)
  then show ?case using Nil by simp
next
  case (Cons f rest)
  show ?case
  proof (cases "str_contains ''.csv'' f")
    case False
    then show ?thesis using Cons by simp
  next
    case True
    show ?thesis
    proof (cases "rd (''data/'' @ f)")
      case (Inl e)
      then have "engine' = engine" using True Cons.prems by auto
      then have "u = engine" using Cons.prems by (auto simp: fun_eq_iff)
      then show ?thesis using Cons.prems by simp
    next
      case (Inr df)
      show ?thesis
      proof (cases "ingest_db df (drop_last4 f) engine")
        case (Inl e)
        then have "engine' = engine" using True Inr Cons.prems by auto
        then have "u = engine" using Cons.prems by (auto simp: fun_eq_iff)
        then show ?thesis using Cons.prems by simp
      next
        case step: (Inr e1)
        let ?t = "drop_last4 f"
        note i = ingest_db_Inr [OF step]
        have run: "load_loop rd rest e1 = (out, engine')"
          using True Inr step Cons.prems by simp
        have e1k: "e1 (fold_case ?t) = Some (?t, df)" using i by simp
        from load_loop_name [OF run e1k] obtain t' where
          e'k: "engine' (fold_case ?t) = Some (?t, t')" ..
        have "u (fold_case ?t) = None \<or> (\<exists>old. u (fold_case ?t) = Some (?t, old))"
          using Cons.prems(2) [rule_format, of "fold_case ?t"] i e'k by auto
        then have ustep: "ingest_db df ?t u = Inr (u(fold_case ?t \<mapsto> (?t, df)))"
          using i by (intro ingest_db_same) auto
        have "\<forall>k. (u(fold_case ?t \<mapsto> (?t, df))) k = e1 k \<or> (u(fold_case ?t \<mapsto> (?t, df))) k = engine' k"
          using Cons.prems(2) i by auto
        from Cons.IH [OF run this]
        have "load_loop rd rest (u(fold_case ?t \<mapsto> (?t, df))) = (out, engine')" .
        moreover have "load_loop rd (f # rest) u = load_loop rd rest (u(fold_case ?t \<mapsto> (?t, df)))"
          using True Inr ustep by simp
        ultimately show ?thesis by (simp only:)
      qed
    qed
  qed
qed

text \<open>
  C9. Re-running the loader is idempotent: for every directory and every store, running the
  loader on the store its first run left gives the same outcome and the same store, so every
  table has the contents it had after one run.
\<close>

theorem load_raw_data_idempotent:
  "load_raw_data env (snd (load_raw_data env engine)) = load_raw_data env engine"
proof (cases "listdir env ''data''")
  case (Inl e)
  then show ?thesis by (simp add: load_raw_data_def)
next
  case (Inr files)
  obtain out engine' where run: "load_loop (read_csv env) files engine = (out, engine')"
    by (cases "load_loop (read_csv env) files engine")
  have "load_loop (read_csv env) files engine' = (out, engine')"
    by (rule load_loop_between [OF run]) simp
  then show ?thesis using Inr run by (simp add: load_raw_data_def)
qed

lemma demo_run_loader:
  "load_raw_data demo_env Map.empty =
     (Inr (), [''purchases'' \<mapsto> (''purchases'', [(''Brand'', [Num 1, Num 2]), (''Dollars'', [Num 10, Num 5])]),
               ''sales.cs'' \<mapsto> (''sales.cs'', [(''Brand'', [Num 1])])])"
  by (simp add: load_raw_data_def demo_env_def ingest_db_def to_sql_def drop_last4_def
        fold_case_def lower_char_def)

theorem load_raw_data_idempotent_witness:
  "fst (load_raw_data demo_env Map.empty) = Inr () \<and>
   load_raw_data demo_env (snd (load_raw_data demo_env Map.empty)) =
     load_raw_data demo_env Map.empty"
  using load_raw_data_idempotent [of demo_env Map.empty]
  by (simp add: demo_run_loader)

text \<open>
  C8 fails for a listed file whose name contains \<open>.csv\<close> without ending in it. For
  \<open>sales.csv.gz\<close> the run completes; there is no table named after the file with its
  extension stripped, neither \<open>sales.csv\<close> nor \<open>sales\<close>, and the frame is stored under
  the name cut by four characters, \<open>sales.cs\<close>.
\<close>

theorem load_raw_data_extension_counterexample:
  "fst (load_raw_data demo_env Map.empty) = Inr () \<and>
   str_contains ''.csv'' ''sales.csv.gz'' \<and>
   spec_table_name ''sales.csv.gz'' = ''sales.csv'' \<and>
   table_of (snd (load_raw_data demo_env Map.empty)) ''sales.csv'' = None \<and>
   table_of (snd (load_raw_data demo_env Map.empty)) ''sales'' = None \<and>
   table_of (snd (load_raw_data demo_env Map.empty)) ''sales.cs'' = Some [(''Brand'', [Num 1])]"
  by (simp add: demo_run_loader spec_table_name_def table_of_def fold_case_def lower_char_def)

section \<open>Properties of the query\<close>

lemma mset_insert_desc: "mset (insert_desc key x ys) = add_mset x (mset ys)"
  by (induction ys) auto

lemma mset_order_by_desc: "mset (order_by_desc key xs) = mset xs"
  by (induction xs) (auto simp: mset_insert_desc)

lemma set_order_by_desc: "set (order_by_desc key xs) = set xs"
  using mset_order_by_desc [of key xs] by (metis set_mset_mset)

lemma sequence_Inr:
  "sequence xs = Inr vs \<Longrightarrow> length vs = length xs \<and> (\<forall>i < length xs. xs ! i = Inr (vs ! i))"
proof (induction xs arbitrary: vs)
  case Nil
  then show ?case by simp
next
  case (Cons x xs)
  then obtain v vs' where x: "x = Inr v" and s: "sequence xs = Inr vs'" and vs: "vs = v # vs'"
    by (auto split: sum.splits)
  from Cons.IH [OF s] have ih: "length vs' = length xs" "\<forall>i < length xs. xs ! i = Inr (vs' ! i)"
    by simp_all
  show ?case
  proof (intro conjI allI impI)
    show "length vs = length (x # xs)" using ih vs by simp
  next
    fix i assume "i < length (x # xs)"
    then show "(x # xs) ! i = Inr (vs ! i)" using ih x vs by (cases i) auto
  qed
qed

lemma sequence_map_Inr: "sequence xs = Inr vs \<Longrightarrow> xs = map Inr vs"
  by (drule sequence_Inr) (auto simp: list_eq_iff_nth_eq)

lemma sequence_keys:
  assumes "sequence (map f ks) = Inr ys" and "\<And>k y. f k = Inr y \<Longrightarrow> kf y = k"
  shows "map kf ys = ks"
proof -
  from sequence_Inr [OF assms(1)] have len: "length ys = length ks"
    and nth: "\<forall>i < length ks. f (ks ! i) = Inr (ys ! i)" by auto
  show ?thesis
    using len nth assms(2) by (auto simp: list_eq_iff_nth_eq)
qed

lemma group_by_keys:
  assumes "sequence (group_by key agg rows) = Inr ys"
    and "\<And>k g y. agg k g = Inr y \<Longrightarrow> kf y = k"
  shows "map kf ys = remdups (map key rows)"
  using assms(1) unfolding group_by_def
  by (rule sequence_keys) (rule assms(2))

lemma bind_err_Inr: "bind_err r f = Inr y \<longleftrightarrow> (\<exists>v. r = Inr v \<and> f v = Inr y)"
  by (cases r) (auto simp: bind_err_def)

lemma SalesSummary_keys:
  assumes "SalesSummary sq db = Inr ss"
  shows "distinct (map (\<lambda>s. (ss_VendorNo s, ss_Brand s)) ss)"
proof -
  have "map (\<lambda>s. (ss_VendorNo s, ss_Brand s)) ss =
          remdups (map (\<lambda>s. (s_VendorNo s, s_Brand s)) (Sales db))"
    using assms unfolding SalesSummary_def
    by (rule group_by_keys) (auto simp: bind_err_Inr split: prod.splits)
  then show ?thesis by simp
qed

lemma FreightSummary_keys:
  assumes "FreightSummary sq db = Inr fs"
  shows "distinct (map fs_VendorNumber fs)"
proof -
  have "map fs_VendorNumber fs = remdups (map vi_VendorNumber (vendor_invoice db))"
    using assms unfolding FreightSummary_def
    by (rule group_by_keys) (auto simp: bind_err_Inr)
  then show ?thesis by simp
qed

lemma PurchaseSummary_distinct:
  assumes "PurchaseSummary sq db = Inr pss"
  shows "distinct pss"
proof -
  have "map ps_key pss =
          remdups (map (\<lambda>(p, pp). (p_VendorNumber p, p_VendorName p, p_Brand p, p_Description p,
                                     p_PurchasePrice p, pp_Price pp, pp_Volume pp))
            (filter (\<lambda>(p, pp). sql_gt0 (purchases_PurchasePrice (types db)) (p_PurchasePrice p))
               (inner_join
                  (\<lambda>p pp. sql_eq sq (purchases_Brand (types db)) (p_Brand p)
                                    (purchase_prices_Brand (types db)) (pp_Brand pp))
                  (purchases db) (purchase_prices db))))"
    using assms unfolding PurchaseSummary_def
    by (rule group_by_keys) (auto simp: bind_err_Inr ps_key_def split: prod.splits)
  then have "distinct (map ps_key pss)" by simp
  then show ?thesis by (simp add: distinct_map)
qed

text \<open>Columns that are compared as stored are equal when their values are.\<close>

lemma sql_eq_as_stored:
  "compared_as_stored a b \<Longrightarrow> sql_eq sq a x b y \<longleftrightarrow> x \<noteq> NA \<and> y \<noteq> NA \<and> x = y"
  by (auto simp: compared_as_stored_def sql_eq_def coerce_def)

lemma filter_unique_key:
  "distinct (map key xs) \<Longrightarrow> (\<forall>x \<in> set xs. P x \<longrightarrow> key x = c) \<Longrightarrow> length (filter P xs) \<le> 1"
proof (induction xs)
  case Nil
  then show ?case by simp
next
  case (Cons x xs)
  show ?case
  proof (cases "P x")
    case False
    then show ?thesis using Cons by simp
  next
    case True
    then have kx: "key x = c" using Cons.prems by simp
    have "filter P xs = []"
    proof (rule ccontr)
      assume "filter P xs \<noteq> []"
      then obtain y where y: "y \<in> set xs" "P y"
        by (metis filter_False)
      then have "key y = c" using Cons.prems by simp
      then have "key x \<in> set (map key xs)" using kx y by force
      then show False using Cons.prems by simp
    qed
    then show ?thesis using True by simp
  qed
qed

lemma on_sales_unique:
  assumes "SalesSummary sq db = Inr ss" and "join_keys_as_stored t"
  shows "length (filter (on_sales sq t ps) ss) \<le> 1"
  by (rule filter_unique_key [OF SalesSummary_keys [OF assms(1)],
        where c = "(ps_VendorNumber ps, ps_Brand ps)"])
     (use assms(2) in \<open>auto simp: on_sales_def join_keys_as_stored_def sql_eq_as_stored\<close>)

lemma on_freight_unique:
  assumes "FreightSummary sq db = Inr fs" and "join_keys_as_stored t"
  shows "length (filter (on_freight sq t l) fs) \<le> 1"
  by (rule filter_unique_key [OF FreightSummary_keys [OF assms(1)],
        where c = "ps_VendorNumber (fst l)"])
     (use assms(2) in \<open>auto simp: on_freight_def join_keys_as_stored_def sql_eq_as_stored\<close>)

lemma left_join_unique:
  "(\<forall>l \<in> set ls. length (filter (on l) rs) \<le> 1) \<Longrightarrow> map fst (left_join on ls rs) = ls"
proof (induction ls)
  case Nil
  then show ?case by (simp add: left_join_def)
next
  case (Cons l ls)
  have ih: "map fst (left_join on ls rs) = ls" using Cons by simp
  have one: "length (filter (on l) rs) \<le> 1" using Cons.prems by simp
  have "left_join on (l # ls) rs =
          (case filter (on l) rs of [] \<Rightarrow> [(l, None)] | m # ms \<Rightarrow> map (\<lambda>r. (l, Some r)) (m # ms))
          @ left_join on ls rs"
    by (simp add: left_join_def)
  moreover have "map fst (case filter (on l) rs of [] \<Rightarrow> [(l, None)]
                          | m # ms \<Rightarrow> map (\<lambda>r. (l, Some r)) (m # ms)) = [l]"
    using one by (cases "filter (on l) rs") auto
  ultimately show ?case using ih by simp
qed

lemma left_join_fst_set: "fst ` set (left_join on ls rs) = set ls"
proof (induction ls)
  case Nil
  then show ?case by (simp add: left_join_def)
next
  case (Cons l ls)
  have "left_join on (l # ls) rs =
          (case filter (on l) rs of [] \<Rightarrow> [(l, None)] | m # ms \<Rightarrow> map (\<lambda>r. (l, Some r)) (m # ms))
          @ left_join on ls rs"
    by (simp add: left_join_def)
  moreover have "fst ` set (case filter (on l) rs of [] \<Rightarrow> [(l, None)]
                          | m # ms \<Rightarrow> map (\<lambda>r. (l, Some r)) (m # ms)) = {l}"
    by (cases "filter (on l) rs") (auto simp: image_iff)
  ultimately show ?case using Cons by (simp add: image_Un)
qed

lemma purchase_part_select_row: "purchase_part (select_row j) = fst (fst j)"
  by (cases j) (auto simp: purchase_part_def select_row_def split: prod.splits)

text \<open>A completed query has computed PurchaseSummary and, unless that is empty, the joins.\<close>

lemma vendor_summary_query_Inr:
  assumes "vendor_summary_query sq db = Inr rows"
  obtains pss j where "PurchaseSummary sq db = Inr pss"
    and "rows = map select_row j"
    and "fst ` fst ` set j = set pss"
    and "join_keys_as_stored (types db) \<longrightarrow> mset (map (\<lambda>x. fst (fst x)) j) = mset pss"
proof -
  from assms obtain pss where pss: "PurchaseSummary sq db = Inr pss"
    and rest: "(if pss = [] then Inr []
       else
         bind_err (SalesSummary sq db) (\<lambda>ss.
         bind_err (FreightSummary sq db) (\<lambda>fs.
           Inr (map select_row
                  (order_by_desc (\<lambda>j. ps_TotalPurchaseDollars (fst (fst j)))
                     (left_join (on_freight sq (types db))
                        (left_join (on_sales sq (types db)) pss ss) fs)))))) = Inr rows"
    unfolding vendor_summary_query_def bind_err_Inr by auto
  show thesis
  proof (cases "pss = []")
    case True
    then have "rows = map select_row []" using rest by simp
    then show thesis using True pss by (intro that [of pss "[]"]) auto
  next
    case False
    then obtain ss fs where ss: "SalesSummary sq db = Inr ss"
      and fs: "FreightSummary sq db = Inr fs"
      and rows: "rows = map select_row
                  (order_by_desc (\<lambda>j. ps_TotalPurchaseDollars (fst (fst j)))
                     (left_join (on_freight sq (types db))
                        (left_join (on_sales sq (types db)) pss ss) fs))"
      using rest by (auto simp: bind_err_Inr)
    let ?j1 = "left_join (on_sales sq (types db)) pss ss"
    let ?j2 = "left_join (on_freight sq (types db)) ?j1 fs"
    let ?j = "order_by_desc (\<lambda>j. ps_TotalPurchaseDollars (fst (fst j))) ?j2"
    have s: "fst ` fst ` set ?j = set pss"
      by (simp only: set_order_by_desc left_join_fst_set)
    have m: "mset (map (\<lambda>x. fst (fst x)) ?j) = mset pss" if k: "join_keys_as_stored (types db)"
    proof -
      have a: "map fst ?j1 = pss"
        by (rule left_join_unique) (intro ballI on_sales_unique [OF ss k])
      have b: "map fst ?j2 = ?j1"
        by (rule left_join_unique) (intro ballI on_freight_unique [OF fs k])
      have "mset (map (\<lambda>x. fst (fst x)) ?j) = mset (map (\<lambda>x. fst (fst x)) ?j2)"
        by (simp add: mset_order_by_desc)
      also have "map (\<lambda>x. fst (fst x)) ?j2 = map fst (map fst ?j2)" by simp
      also have "\<dots> = pss" by (simp only: a b)
      finally show ?thesis .
    qed
    show thesis using m by (intro that [OF pss rows s]) blast
  qed
qed

lemma count_filter_map: "length (filter (\<lambda>x. f x = y) xs) = count (mset (map f xs)) y"
  by (induction xs) auto

text \<open>
  C4 (amended). When the query completes, every row of PurchaseSummary, one for each
  distinct combination of the seven grouping columns, appears in the output, whether or not
  a SalesSummary or FreightSummary row matches it. When the join columns are compared as
  stored, it appears exactly once, and a (vendor, brand) pair appears in the output as many
  times as PurchaseSummary has rows for it.
\<close>

theorem purchase_summary_rows_once:
  assumes "vendor_summary_query sq db = Inr rows"
  shows "\<exists>pss. PurchaseSummary sq db = Inr pss \<and>
    (\<forall>ps \<in> set pss. 1 \<le> length (filter (\<lambda>r. purchase_part r = ps) rows)) \<and>
    (join_keys_as_stored (types db) \<longrightarrow>
       (\<forall>ps \<in> set pss. length (filter (\<lambda>r. purchase_part r = ps) rows) = 1) \<and>
       (\<forall>k. length (filter (\<lambda>r. vendor_brand r = k) rows) =
              length (filter (\<lambda>p. ps_vendor_brand p = k) pss)))"
proof -
  from assms obtain pss j where pss: "PurchaseSummary sq db = Inr pss"
    and rows: "rows = map select_row j"
    and s: "fst ` fst ` set j = set pss"
    and m: "join_keys_as_stored (types db) \<longrightarrow> mset (map (\<lambda>x. fst (fst x)) j) = mset pss"
    by (rule vendor_summary_query_Inr)
  have parts: "map purchase_part rows = map (\<lambda>x. fst (fst x)) j"
    by (simp add: rows purchase_part_select_row comp_def)
  have least: "1 \<le> length (filter (\<lambda>r. purchase_part r = ps) rows)" if "ps \<in> set pss" for ps
  proof -
    from that s have "ps \<in> set (map purchase_part rows)"
      unfolding parts by (auto simp: image_iff)
    then have "0 < count (mset (map purchase_part rows)) ps" by (simp only: count_greater_zero_iff set_mset_mset)
    then show ?thesis by (simp add: count_filter_map)
  qed
  have once: "length (filter (\<lambda>r. purchase_part r = ps) rows) = 1"
    if k: "join_keys_as_stored (types db)" and ps: "ps \<in> set pss" for ps
  proof -
    have "length (filter (\<lambda>r. purchase_part r = ps) rows) = count (mset pss) ps"
      using m k by (simp only: count_filter_map parts)
    also have "\<dots> = 1"
      using ps PurchaseSummary_distinct [OF pss] by (simp add: distinct_count_atmost_1)
    finally show ?thesis .
  qed
  have pairs: "length (filter (\<lambda>r. vendor_brand r = k) rows) =
                 length (filter (\<lambda>p. ps_vendor_brand p = k) pss)"
    if ks: "join_keys_as_stored (types db)" for k
  proof -
    have vb: "vendor_brand r = ps_vendor_brand (purchase_part r)" for r
      by (simp add: vendor_brand_def ps_vendor_brand_def purchase_part_def)
    have "length (filter (\<lambda>r. vendor_brand r = k) rows) =
            count (mset (map ps_vendor_brand (map purchase_part rows))) k"
      by (simp only: vb count_filter_map [of "\<lambda>r. ps_vendor_brand (purchase_part r)"] map_map comp_def)
    also have "\<dots> = count (mset (map ps_vendor_brand pss)) k"
      using m ks unfolding parts by (metis mset_map)
    also have "\<dots> = length (filter (\<lambda>p. ps_vendor_brand p = k) pss)"
      by (simp only: count_filter_map)
    finally show ?thesis .
  qed
  show ?thesis using pss least once pairs by blast
qed

lemmas query_defs = vendor_summary_query_def PurchaseSummary_def SalesSummary_def
  FreightSummary_def group_by_def inner_join_def left_join_def sql_eq_def coerce_def
  numeric_affinity_def sql_gt0_def sql_less_def sql_le_def select_row_def on_sales_def
  on_freight_def bind_err_def demo_sqlite_def small_sum_def decimal_def digit_def
  numeric_schema_def

lemma two_price_summary:
  "PurchaseSummary demo_sqlite two_price_db =
     Inr [\<lparr>ps_VendorNumber = Num 1, ps_VendorName = Str ''ACME '', ps_Brand = Num 7,
            ps_Description = Str ''Gin'', ps_PurchasePrice = Num 10, ps_ActualPrice = Num 15,
            ps_Volume = Str ''750'', ps_TotalPurchaseQuantity = Num 2,
            ps_TotalPurchaseDollars = Num 20\<rparr>,
          \<lparr>ps_VendorNumber = Num 1, ps_VendorName = Str ''ACME '', ps_Brand = Num 7,
            ps_Description = Str ''Gin'', ps_PurchasePrice = Num 12, ps_ActualPrice = Num 15,
            ps_Volume = Str ''750'', ps_TotalPurchaseQuantity = Num 1,
            ps_TotalPurchaseDollars = Num 12\<rparr>]"
  by (simp add: query_defs two_price_db_def)

lemma two_price_query:
  "vendor_summary_query demo_sqlite two_price_db =
     Inr [\<lparr>VendorNumber = Num 1, VendorName = Str ''ACME '', Brand = Num 7,
            Description = Str ''Gin'', PurchasePrice = Num 10, ActualPrice = Num 15,
            Volume = Str ''750'', TotalPurchaseQuantity = Num 2, TotalPurchaseDollars = Num 20,
            TotalSalesQuantity = NA, TotalSalesDollars = NA, TotalSalesPrice = NA,
            TotalExciseTax = NA, FreightCost = NA\<rparr>,
          \<lparr>VendorNumber = Num 1, VendorName = Str ''ACME '', Brand = Num 7,
            Description = Str ''Gin'', PurchasePrice = Num 12, ActualPrice = Num 15,
            Volume = Str ''750'', TotalPurchaseQuantity = Num 1, TotalPurchaseDollars = Num 12,
            TotalSalesQuantity = NA, TotalSalesDollars = NA, TotalSalesPrice = NA,
            TotalExciseTax = NA, FreightCost = NA\<rparr>]"
  by (simp add: query_defs two_price_db_def)

lemma text_brand_query:
  "vendor_summary_query demo_sqlite text_brand_db =
     Inr [\<lparr>VendorNumber = Num 1, VendorName = Str ''ACME '', Brand = Num 7,
            Description = Str ''Gin'', PurchasePrice = Num 10, ActualPrice = Num 15,
            Volume = Str ''750'', TotalPurchaseQuantity = Num 2, TotalPurchaseDollars = Num 20,
            TotalSalesQuantity = Num 3, TotalSalesDollars = Num 45, TotalSalesPrice = Num 15,
            TotalExciseTax = Num 1, FreightCost = NA\<rparr>,
          \<lparr>VendorNumber = Num 1, VendorName = Str ''ACME '', Brand = Num 7,
            Description = Str ''Gin'', PurchasePrice = Num 10, ActualPrice = Num 15,
            Volume = Str ''750'', TotalPurchaseQuantity = Num 2, TotalPurchaseDollars = Num 20,
            TotalSalesQuantity = Num 1, TotalSalesDollars = Num 15, TotalSalesPrice = Num 15,
            TotalExciseTax = Num 1, FreightCost = NA\<rparr>]"
  by (simp add: query_defs text_brand_db_def)

lemma text_price_query:
  "vendor_summary_query demo_sqlite text_price_db =
     Inr [\<lparr>VendorNumber = Num 1, VendorName = Str ''ACME '', Brand = Num 7,
            Description = Str ''Gin'', PurchasePrice = Str ''0.00'', ActualPrice = Num 15,
            Volume = Str ''750'', TotalPurchaseQuantity = Num 2, TotalPurchaseDollars = Num 0,
            TotalSalesQuantity = NA, TotalSalesDollars = NA, TotalSalesPrice = NA,
            TotalExciseTax = NA, FreightCost = NA\<rparr>,
          \<lparr>VendorNumber = Num 1, VendorName = Str ''ACME '', Brand = Num 7,
            Description = Str ''Gin'', PurchasePrice = Str ''free'', ActualPrice = Num 15,
            Volume = Str ''750'', TotalPurchaseQuantity = Num 1, TotalPurchaseDollars = Num 0,
            TotalSalesQuantity = NA, TotalSalesDollars = NA, TotalSalesPrice = NA,
            TotalExciseTax = NA, FreightCost = NA\<rparr>]"
  by (simp add: query_defs text_price_db_def)

theorem purchase_summary_rows_once_witness:
  "join_keys_as_stored (types two_price_db) \<and>
   map_sum id (map ps_PurchasePrice) (PurchaseSummary demo_sqlite two_price_db) =
     Inr [Num 10, Num 12] \<and>
   map_sum id (map (\<lambda>r. ps_PurchasePrice (purchase_part r)))
     (vendor_summary_query demo_sqlite two_price_db) = Inr [Num 10, Num 12]"
proof -
  have k: "join_keys_as_stored (types two_price_db)"
    by (simp add: join_keys_as_stored_def compared_as_stored_def two_price_db_def
          numeric_schema_def)
  have q: "vendor_summary_query demo_sqlite two_price_db =
             Inr (projr (vendor_summary_query demo_sqlite two_price_db))"
    by (simp add: two_price_query)
  from purchase_summary_rows_once [OF q] k
  obtain pss where pss: "PurchaseSummary demo_sqlite two_price_db = Inr pss"
    and once: "\<forall>ps \<in> set pss. length (filter (\<lambda>r. purchase_part r = ps)
                 (projr (vendor_summary_query demo_sqlite two_price_db))) = 1"
    by blast
  have "map (\<lambda>r. ps_PurchasePrice (purchase_part r))
          (projr (vendor_summary_query demo_sqlite two_price_db)) = [Num 10, Num 12]"
    by (simp add: two_price_query purchase_part_def)
  then show ?thesis
    using k pss by (auto simp: two_price_query two_price_summary)
qed

text \<open>
  C4 as stated fails: the pair of vendor 1 and brand 7, bought at two purchase prices, has
  two rows in PurchaseSummary and is twice in the output.
\<close>

theorem vendor_brand_twice_counterexample:
  "map_sum id (map ps_vendor_brand) (PurchaseSummary demo_sqlite two_price_db) =
     Inr [(Num 1, Num 7), (Num 1, Num 7)] \<and>
   map_sum id (map vendor_brand) (vendor_summary_query demo_sqlite two_price_db) =
     Inr [(Num 1, Num 7), (Num 1, Num 7)]"
  by (simp add: two_price_query two_price_summary vendor_brand_def ps_vendor_brand_def)

text \<open>
  The join columns must be compared as stored for a PurchaseSummary row to come out once:
  where the brand is an integer column in purchases and a text column in Sales, the one
  PurchaseSummary row matches the SalesSummary rows of brand \<open>7\<close> and of brand \<open>07\<close>.
\<close>

lemma text_brand_row_twice:
  "\<not> join_keys_as_stored (types text_brand_db) \<and>
   map_sum id length (PurchaseSummary demo_sqlite text_brand_db) = Inr 1 \<and>
   map_sum id (map TotalSalesQuantity) (vendor_summary_query demo_sqlite text_brand_db) =
     Inr [Num 3, Num 1]"
  by (simp add: text_brand_query)
     (simp add: query_defs text_brand_db_def join_keys_as_stored_def compared_as_stored_def)

lemma sequence_mem: "sequence xs = Inr ys \<Longrightarrow> y \<in> set ys \<Longrightarrow> Inr y \<in> set xs"
  by (drule sequence_map_Inr) auto

lemma number_gt0: "number_or_null v \<Longrightarrow> sql_gt0 a v \<Longrightarrow> positive_number v"
  by (cases v) (auto simp: number_or_null_def sql_gt0_def sql_less_def positive_number_def
                      split: if_splits)

lemma gt0_positive: "number_or_null v \<Longrightarrow> \<not> positive_number v \<Longrightarrow> \<not> sql_gt0 a v"
  using number_gt0 by blast

lemma group_by_mem:
  "Inr y \<in> set (group_by key agg rows) \<Longrightarrow>
     \<exists>r \<in> set rows. agg (key r) (filter (\<lambda>r'. key r' = key r) rows) = Inr y"
  by (auto simp: group_by_def)

lemma PurchaseSummary_price:
  assumes "PurchaseSummary sq db = Inr pss" and "ps \<in> set pss"
  shows "\<exists>p \<in> set (purchases db). ps_PurchasePrice ps = p_PurchasePrice p \<and>
           sql_gt0 (purchases_PurchasePrice (types db)) (p_PurchasePrice p)"
proof -
  let ?rows = "filter (\<lambda>(p, pp). sql_gt0 (purchases_PurchasePrice (types db)) (p_PurchasePrice p))
          (inner_join
             (\<lambda>p pp. sql_eq sq (purchases_Brand (types db)) (p_Brand p)
                               (purchase_prices_Brand (types db)) (pp_Brand pp))
             (purchases db) (purchase_prices db))"
  from group_by_mem [OF sequence_mem [OF assms [unfolded PurchaseSummary_def]]]
  obtain r where r: "r \<in> set ?rows"
    and agg: "(case (case r of (p, pp) \<Rightarrow> (p_VendorNumber p, p_VendorName p, p_Brand p,
                  p_Description p, p_PurchasePrice p, pp_Price pp, pp_Volume pp)) of
               (vno, vname, brand, descr, price, actual, vol) \<Rightarrow> \<lambda>g.
          bind_err (sql_sum sq (map (\<lambda>(p, pp). p_Quantity p) g)) (\<lambda>quantity.
          bind_err (sql_sum sq (map (\<lambda>(p, pp). p_Dollars p) g)) (\<lambda>dollars.
            Inr \<lparr>ps_VendorNumber = vno, ps_VendorName = vname, ps_Brand = brand,
                 ps_Description = descr, ps_PurchasePrice = price, ps_ActualPrice = actual,
                 ps_Volume = vol, ps_TotalPurchaseQuantity = quantity,
                 ps_TotalPurchaseDollars = dollars\<rparr>)))
             (filter (\<lambda>r'. (case r' of (p, pp) \<Rightarrow> (p_VendorNumber p, p_VendorName p, p_Brand p,
                  p_Description p, p_PurchasePrice p, pp_Price pp, pp_Volume pp)) =
                (case r of (p, pp) \<Rightarrow> (p_VendorNumber p, p_VendorName p, p_Brand p,
                  p_Description p, p_PurchasePrice p, pp_Price pp, pp_Volume pp))) ?rows) = Inr ps"
    by blast
  obtain p pp where rp: "r = (p, pp)" by (cases r)
  from agg have price: "ps_PurchasePrice ps = p_PurchasePrice p"
    unfolding rp by (auto simp: bind_err_Inr)
  from r have gt: "sql_gt0 (purchases_PurchasePrice (types db)) (p_PurchasePrice p)"
    and "p \<in> set (purchases db)"
    unfolding rp by (auto simp: inner_join_def)
  with price show ?thesis by blast
qed

lemma filter_inner_join:
  "filter (\<lambda>(l, r). P l) (inner_join on ls rs) = inner_join on (filter P ls) rs"
  by (induction ls) (auto simp: inner_join_def filter_map comp_def)

lemma PurchaseSummary_filtered:
  assumes "\<forall>p \<in> set (purchases db). number_or_null (p_PurchasePrice p)"
  shows "PurchaseSummary sq
           (db\<lparr>purchases := filter (\<lambda>p. positive_number (p_PurchasePrice p)) (purchases db)\<rparr>) =
         PurchaseSummary sq db"
proof -
  let ?G = "\<lambda>p. sql_gt0 (purchases_PurchasePrice (types db)) (p_PurchasePrice p)"
  let ?P = "\<lambda>p. positive_number (p_PurchasePrice p)"
  let ?on = "\<lambda>p pp. sql_eq sq (purchases_Brand (types db)) (p_Brand p)
                               (purchase_prices_Brand (types db)) (pp_Brand pp)"
  have "filter ?G (filter ?P (purchases db)) = filter ?G (purchases db)"
    unfolding filter_filter
    by (rule filter_cong) (use assms number_gt0 in auto)
  then have "filter (\<lambda>(p, pp). ?G p) (inner_join ?on (filter ?P (purchases db)) (purchase_prices db)) =
        filter (\<lambda>(p, pp). ?G p) (inner_join ?on (purchases db) (purchase_prices db))"
    by (simp only: filter_inner_join)
  then show ?thesis by (simp add: PurchaseSummary_def)
qed

text \<open>
  C7 (amended). When every purchase price stored in purchases is a number or NULL, every
  row of a completed query has a strictly positive PurchasePrice, and the rows of purchases
  whose price is not positive (zero, negative or NULL) contribute nothing: the query gives
  the same outcome without them.
\<close>

theorem query_purchase_price_positive:
  assumes "\<forall>p \<in> set (purchases db). number_or_null (p_PurchasePrice p)"
  shows "(\<forall>rows. vendor_summary_query sq db = Inr rows \<longrightarrow>
            (\<forall>r \<in> set rows. positive_number (PurchasePrice r))) \<and>
         vendor_summary_query sq
           (db\<lparr>purchases := filter (\<lambda>p. positive_number (p_PurchasePrice p)) (purchases db)\<rparr>) =
         vendor_summary_query sq db"
proof (intro conjI allI impI ballI)
  fix rows r
  assume q: "vendor_summary_query sq db = Inr rows" and r: "r \<in> set rows"
  from q obtain pss j where pss: "PurchaseSummary sq db = Inr pss"
    and rows: "rows = map select_row j"
    and s: "fst ` fst ` set j = set pss"
    by (rule vendor_summary_query_Inr)
  from r rows obtain x where x: "x \<in> set j" and rx: "r = select_row x" by auto
  have "purchase_part r \<in> set pss"
    using x s unfolding rx purchase_part_select_row by (auto simp: image_iff)
  from PurchaseSummary_price [OF pss this]
  obtain p where "p \<in> set (purchases db)"
    and "ps_PurchasePrice (purchase_part r) = p_PurchasePrice p"
    and "sql_gt0 (purchases_PurchasePrice (types db)) (p_PurchasePrice p)"
    by blast
  then show "positive_number (PurchasePrice r)"
    using assms number_gt0 by (auto simp: purchase_part_def)
next
  show "vendor_summary_query sq
           (db\<lparr>purchases := filter (\<lambda>p. positive_number (p_PurchasePrice p)) (purchases db)\<rparr>) =
         vendor_summary_query sq db"
  proof -
    let ?db = "db\<lparr>purchases := filter (\<lambda>p. positive_number (p_PurchasePrice p)) (purchases db)\<rparr>"
    have "SalesSummary sq ?db = SalesSummary sq db" by (simp add: SalesSummary_def)
    moreover have "FreightSummary sq ?db = FreightSummary sq db" by (simp add: FreightSummary_def)
    moreover have "types ?db = types db" by simp
    moreover note PurchaseSummary_filtered [OF assms, of sq]
    ultimately show ?thesis by (simp only: vendor_summary_query_def)
  qed
qed

theorem query_purchase_price_positive_witness:
  "map_sum id (map PurchasePrice) (vendor_summary_query demo_sqlite two_price_db) =
     Inr [Num 10, Num 12] \<and>
   positive_number (Num 10) \<and> positive_number (Num 12) \<and>
   map p_PurchasePrice (purchases two_price_db) = [Num 10, Num 12, Num 0] \<and>
   map_sum id (map PurchasePrice)
     (vendor_summary_query demo_sqlite
        (two_price_db\<lparr>purchases :=
           filter (\<lambda>p. positive_number (p_PurchasePrice p)) (purchases two_price_db)\<rparr>)) =
     Inr [Num 10, Num 12]"
proof -
  have n: "\<forall>p \<in> set (purchases two_price_db). number_or_null (p_PurchasePrice p)"
    by (simp add: two_price_db_def number_or_null_def)
  note q = query_purchase_price_positive [OF n, of demo_sqlite]
  from q have "\<forall>r \<in> set (projr (vendor_summary_query demo_sqlite two_price_db)).
      positive_number (PurchasePrice r)"
    by (auto simp: two_price_query)
  then have "positive_number (Num 10) \<and> positive_number (Num 12)"
    by (simp add: two_price_query)
  moreover from q have "vendor_summary_query demo_sqlite
        (two_price_db\<lparr>purchases :=
           filter (\<lambda>p. positive_number (p_PurchasePrice p)) (purchases two_price_db)\<rparr>) =
      vendor_summary_query demo_sqlite two_price_db"
    by blast
  moreover have "map p_PurchasePrice (purchases two_price_db) = [Num 10, Num 12, Num 0]"
    by (simp add: two_price_db_def)
  ultimately show ?thesis by (simp add: two_price_query)
qed

text \<open>
  C7 as stated fails where the price column of purchases is a text column: the prices
  \<open>0.00\<close> and \<open>free\<close> are above the text \<open>0\<close>, and their rows are in the output.
\<close>

theorem text_price_counterexample:
  "map_sum id (map PurchasePrice) (vendor_summary_query demo_sqlite text_price_db) =
     Inr [Str ''0.00'', Str ''free''] \<and>
   \<not> positive_number (Str ''0.00'') \<and> \<not> positive_number (Str ''free'')"
  by (simp add: text_price_query positive_number_def)

section \<open>Properties of the cleaning step\<close>

lemma py_bind_Inr:
  "py_bind m f st = (Inr y, st') \<longleftrightarrow> (\<exists>x st1. m st = (Inr x, st1) \<and> f x st1 = (Inr y, st'))"
  by (auto simp: py_bind_def split: prod.splits sum.splits)

lemma py_lift_Inr: "py_lift r st = (Inr v, st') \<longleftrightarrow> r = Inr v \<and> st' = st"
  by (auto simp: py_lift_def)


lemma name_lookup_Inr: "name_lookup n st = (Inr a, st') \<longleftrightarrow> globals st n = Some a \<and> st' = st"
  by (auto simp: name_lookup_def split: option.splits)

lemma getitem_Inr:
  "getitem a col st = (Inr c, st') \<longleftrightarrow> column_at st a col = Some c \<and> st' = st"
  by (auto simp: getitem_def column_at_def split: option.splits pyobj.splits)

lemma column_at_heap_upd:
  "column_at (st\<lparr>heap := (heap st)(a \<mapsto> Frame f)\<rparr>) =
     (\<lambda>a' c'. if a' = a then map_of f c' else column_at st a' c')"
  by (simp add: column_at_def fun_eq_iff)

lemma setitem_Inr:
  assumes "setitem a col v st = (Inr u, st')"
  shows "column_at st' = (\<lambda>a' c'. if a' = a \<and> c' = col then Some v else column_at st a' c')"
    and "globals st' = globals st" and "tables st' = tables st"
proof -
  from assms obtain f where f: "heap st a = Some (Frame f)"
    and st': "st' = st\<lparr>heap := (heap st)(a \<mapsto> Frame (AList.update col v f))\<rparr>"
    by (auto simp: setitem_def split: option.splits pyobj.splits)
  show "column_at st' = (\<lambda>a' c'. if a' = a \<and> c' = col then Some v else column_at st a' c')"
    unfolding st' column_at_heap_upd using f
    by (auto simp: fun_eq_iff update_conv' column_at_def)
  show "globals st' = globals st" "tables st' = tables st" by (simp_all add: st')
qed

lemma fillna_inplace_Inr:
  assumes "fillna_inplace a v st = (Inr u, st')"
  shows "column_at st' =
           (\<lambda>a' c'. if a' = a then map_option (map (fill_cell v)) (column_at st a' c')
                    else column_at st a' c')"
    and "globals st' = globals st" and "tables st' = tables st"
proof -
  from assms obtain f where f: "heap st a = Some (Frame f)"
    and st': "st' = st\<lparr>heap := (heap st)(a \<mapsto> Frame (map (\<lambda>(n, c). (n, map (fill_cell v) c)) f))\<rparr>"
    by (auto simp: fillna_inplace_def split: option.splits pyobj.splits)
  show "column_at st' =
           (\<lambda>a' c'. if a' = a then map_option (map (fill_cell v)) (column_at st a' c')
                    else column_at st a' c')"
    unfolding st' column_at_heap_upd using f
    by (auto simp: fun_eq_iff map_of_map column_at_def)
  show "globals st' = globals st" "tables st' = tables st" by (simp_all add: st')
qed

text \<open>What each statement of \<open>clean_data\<close> has done when it completes.\<close>

lemma astype_volume_Inr:
  assumes "astype_volume py_float df st = (Inr u, st')"
  obtains vol v where "column_at st df ''Volume'' = Some vol"
    and "astype_float64 py_float vol = Inr v"
    and "column_at st' = (\<lambda>a c. if a = df \<and> c = ''Volume'' then Some v else column_at st a c)"
    and "globals st' = globals st" and "tables st' = tables st"
  using assms unfolding astype_volume_def py_bind_Inr py_lift_Inr getitem_Inr
  by (auto dest: setitem_Inr)

lemma strip_column_Inr:
  assumes "strip_column df col st = (Inr u, st')"
  obtains c v where "column_at st df col = Some c"
    and "str_strip c = Inr v"
    and "column_at st' = (\<lambda>a c'. if a = df \<and> c' = col then Some v else column_at st a c')"
    and "globals st' = globals st" and "tables st' = tables st"
  using assms unfolding strip_column_def py_bind_Inr py_lift_Inr getitem_Inr
  by (auto dest: setitem_Inr)

lemma global_col_Inr:
  "global_col n col st = (Inr c, st') \<longleftrightarrow>
     (\<exists>g. globals st n = Some g \<and> column_at st g col = Some c) \<and> st' = st"
  by (auto simp: global_col_def py_bind_Inr name_lookup_Inr getitem_Inr)

lemma global_binop_Inr:
  "global_binop op a b st = (Inr c, st') \<longleftrightarrow>
     (\<exists>g x y. globals st ''vendor_sales_summary'' = Some g \<and> column_at st g a = Some x \<and>
        column_at st g b = Some y \<and> col_binop op x y = Inr c) \<and> st' = st"
  by (auto simp: global_binop_def py_bind_Inr py_lift_Inr global_col_Inr)

lemma global_set_Inr:
  assumes "global_set n col v st = (Inr u, st')"
  obtains g where "globals st n = Some g"
    and "column_at st' = (\<lambda>a c. if a = g \<and> c = col then Some v else column_at st a c)"
    and "globals st' = globals st" and "tables st' = tables st"
  using assms unfolding global_set_def py_bind_Inr name_lookup_Inr
  by (auto dest: setitem_Inr)

lemma gross_profit_Inr:
  assumes "gross_profit rnd st = (Inr u, st')"
  obtains g x y v where "globals st ''vendor_sales_summary'' = Some g"
    and "column_at st g ''TotalSalesDollars'' = Some x"
    and "column_at st g ''TotalPurchaseDollars'' = Some y"
    and "col_binop (cell_sub rnd) x y = Inr v"
    and "column_at st' = (\<lambda>a c. if a = g \<and> c = ''GrossProfit'' then Some v else column_at st a c)"
    and "globals st' = globals st" and "tables st' = tables st"
proof -
  from assms obtain v where b: "global_binop (cell_sub rnd) ''TotalSalesDollars'' ''TotalPurchaseDollars'' st = (Inr v, st)"
    and s: "global_set ''vendor_sales_summary'' ''GrossProfit'' v st = (Inr u, st')"
    unfolding gross_profit_def py_bind_Inr global_binop_Inr by auto
  from b obtain g x y where g: "globals st ''vendor_sales_summary'' = Some g"
    and x: "column_at st g ''TotalSalesDollars'' = Some x"
    and y: "column_at st g ''TotalPurchaseDollars'' = Some y"
    and v: "col_binop (cell_sub rnd) x y = Inr v"
    unfolding global_binop_Inr by auto
  from s g show thesis
    by (elim global_set_Inr) (rule that [OF g x y v], auto)
qed




text \<open>Lines 82 to 89: what they leave in the frame \<open>df\<close>, and nothing else is changed.\<close>

lemma clean_frame_part:
  assumes "astype_volume py_float df st = (Inr (), st1)"
    and "fillna_inplace df (Num 0) st1 = (Inr (), st2)"
    and "strip_column df ''VendorName'' st2 = (Inr (), st3)"
    and "strip_column df ''Description'' st3 = (Inr (), st4)"
  obtains vol vol' vn vn' ds ds' where
    "column_at st df ''Volume'' = Some vol" "astype_float64 py_float vol = Inr vol'"
    "column_at st df ''VendorName'' = Some vn" "str_strip (map (fill_cell (Num 0)) vn) = Inr vn'"
    "column_at st df ''Description'' = Some ds" "str_strip (map (fill_cell (Num 0)) ds) = Inr ds'"
    "column_at st4 =
       (\<lambda>a c. if a = df
               then (if c = ''Description'' then Some ds'
                     else if c = ''VendorName'' then Some vn'
                     else if c = ''Volume'' then Some (map (fill_cell (Num 0)) vol')
                     else map_option (map (fill_cell (Num 0))) (column_at st a c))
               else column_at st a c)"
    "globals st4 = globals st" "tables st4 = tables st"
proof -
  from assms(1) obtain vol vol' where vol: "column_at st df ''Volume'' = Some vol"
    and vol': "astype_float64 py_float vol = Inr vol'"
    and c1: "column_at st1 = (\<lambda>a c. if a = df \<and> c = ''Volume'' then Some vol' else column_at st a c)"
    and g1: "globals st1 = globals st" and t1: "tables st1 = tables st"
    by (rule astype_volume_Inr)
  note f = fillna_inplace_Inr [OF assms(2)]
  from assms(3) obtain vn0 vn' where vn0: "column_at st2 df ''VendorName'' = Some vn0"
    and vn': "str_strip vn0 = Inr vn'"
    and c3: "column_at st3 = (\<lambda>a c. if a = df \<and> c = ''VendorName'' then Some vn' else column_at st2 a c)"
    and g3: "globals st3 = globals st2" and t3: "tables st3 = tables st2"
    by (rule strip_column_Inr)
  from assms(4) obtain ds0 ds' where ds0: "column_at st3 df ''Description'' = Some ds0"
    and ds': "str_strip ds0 = Inr ds'"
    and c4: "column_at st4 = (\<lambda>a c. if a = df \<and> c = ''Description'' then Some ds' else column_at st3 a c)"
    and g4: "globals st4 = globals st3" and t4: "tables st4 = tables st3"
    by (rule strip_column_Inr)
  from vn0 obtain vn where vn: "column_at st df ''VendorName'' = Some vn"
    and vn0': "vn0 = map (fill_cell (Num 0)) vn"
    by (auto simp: f(1) c1)
  from ds0 obtain ds where ds: "column_at st df ''Description'' = Some ds"
    and ds0': "ds0 = map (fill_cell (Num 0)) ds"
    by (auto simp: c3 f(1) c1)
  show thesis
  proof (rule that [OF vol vol' vn _ ds])
    show "str_strip (map (fill_cell (Num 0)) vn) = Inr vn'" using vn' vn0' by simp
    show "str_strip (map (fill_cell (Num 0)) ds) = Inr ds'" using ds' ds0' by simp
    show "column_at st4 =
       (\<lambda>a c. if a = df
               then (if c = ''Description'' then Some ds'
                     else if c = ''VendorName'' then Some vn'
                     else if c = ''Volume'' then Some (map (fill_cell (Num 0)) vol')
                     else map_option (map (fill_cell (Num 0))) (column_at st a c))
               else column_at st a c)"
      by (auto simp: c4 c3 f(1) c1 fun_eq_iff)
    show "globals st4 = globals st" by (simp add: g4 g3 f(2) g1)
    show "tables st4 = tables st" by (simp add: t4 t3 f(3) t1)
  qed
qed



lemma col_scalar_Inr:
  "col_scalar op a k = Inr c \<Longrightarrow> length c = length a \<and> (\<forall>i < length c. op (a ! i) k = Inr (c ! i))"
  unfolding col_scalar_def by (drule sequence_Inr) auto

lemma cell_div_zero:
  "cell_div rnd a (Num 0) = Inr c \<Longrightarrow> c = NA \<or> c = PInf \<or> c = NInf"
  by (cases a) (auto split: if_splits)

lemma cell_mul_nonfinite:
  "cell_mul rnd a (Num 100) = Inr c \<Longrightarrow> a = NA \<or> a = PInf \<or> a = NInf \<Longrightarrow>
     c = NA \<or> c = PInf \<or> c = NInf"
  by (cases a) (auto split: if_splits)

lemma cell_div_zero_returns:
  "\<not> is_str a \<Longrightarrow> \<exists>c. cell_div rnd a (Num 0) = Inr c"
  by (cases a) (auto simp: is_str_def)

lemma str_strip_Inr: "str_strip c = Inr v \<Longrightarrow> v = map strip_cell c"
  by (auto simp: str_strip_def split: if_splits)









end
